theory Spec2Isabelle
  imports Complex_Main "HOL-Library.Word" "HOL-Library.Monad_Syntax"
begin

section \<open>Numbers of the program\<close>

text \<open>
  The program computes on Go's \<^verbatim>\<open>float32\<close>. The model keeps the special values of
  IEEE 754 that the program can produce (a division by zero gives an infinity or, for
  \<^verbatim>\<open>0/0\<close>, a NaN; no arithmetic operation of Go on floats panics) and idealises the
  finite values: a finite float is a real number and the arithmetic on finite values is
  exact (no rounding, no overflow, no signed zero). Every comparison with a NaN is
  false, as in Go.
\<close>

datatype f32 = Fin real | PInf | NInf | NaN

instantiation f32 :: "{plus, minus, uminus, times, divide, ord}"
begin

fun uminus_f32 :: "f32 \<Rightarrow> f32" where
  "- Fin a = Fin (- a)"
| "- PInf = NInf"
| "- NInf = PInf"
| "- NaN = NaN"

fun plus_f32 :: "f32 \<Rightarrow> f32 \<Rightarrow> f32" where
  "Fin a + Fin b = Fin (a + b)"
| "NaN + _ = NaN"
| "_ + NaN = NaN"
| "PInf + NInf = NaN"
| "NInf + PInf = NaN"
| "PInf + _ = PInf"
| "NInf + _ = NInf"
| "_ + PInf = PInf"
| "_ + NInf = NInf"

definition minus_f32 :: "f32 \<Rightarrow> f32 \<Rightarrow> f32" where
  "a - b = a + (- b)" for a b :: f32

fun times_f32 :: "f32 \<Rightarrow> f32 \<Rightarrow> f32" where
  "Fin a * Fin b = Fin (a * b)"
| "NaN * _ = NaN"
| "_ * NaN = NaN"
| "PInf * Fin b = (if b = 0 then NaN else if 0 < b then PInf else NInf)"
| "NInf * Fin b = (if b = 0 then NaN else if 0 < b then NInf else PInf)"
| "Fin a * PInf = (if a = 0 then NaN else if 0 < a then PInf else NInf)"
| "Fin a * NInf = (if a = 0 then NaN else if 0 < a then NInf else PInf)"
| "PInf * PInf = PInf"
| "PInf * NInf = NInf"
| "NInf * PInf = NInf"
| "NInf * NInf = PInf"

fun divide_f32 :: "f32 \<Rightarrow> f32 \<Rightarrow> f32" where
  "divide_f32 (Fin a) (Fin b) =
     (if b \<noteq> 0 then Fin (a / b)
      else if a = 0 then NaN
      else if 0 < a then PInf else NInf)"
| "divide_f32 NaN _ = NaN"
| "divide_f32 _ NaN = NaN"
| "divide_f32 (Fin a) PInf = Fin 0"
| "divide_f32 (Fin a) NInf = Fin 0"
| "divide_f32 PInf (Fin b) = (if 0 \<le> b then PInf else NInf)"
| "divide_f32 NInf (Fin b) = (if 0 \<le> b then NInf else PInf)"
| "divide_f32 PInf _ = NaN"
| "divide_f32 NInf _ = NaN"

fun less_f32 :: "f32 \<Rightarrow> f32 \<Rightarrow> bool" where
  "Fin a < Fin b \<longleftrightarrow> a < b"
| "NaN < _ \<longleftrightarrow> False"
| "_ < NaN \<longleftrightarrow> False"
| "NInf < NInf \<longleftrightarrow> False"
| "NInf < _ \<longleftrightarrow> True"
| "_ < NInf \<longleftrightarrow> False"
| "PInf < _ \<longleftrightarrow> False"
| "_ < PInf \<longleftrightarrow> True"

fun less_eq_f32 :: "f32 \<Rightarrow> f32 \<Rightarrow> bool" where
  "Fin a \<le> Fin b \<longleftrightarrow> a \<le> b"
| "NaN \<le> _ \<longleftrightarrow> False"
| "_ \<le> NaN \<longleftrightarrow> False"
| "NInf \<le> _ \<longleftrightarrow> True"
| "_ \<le> PInf \<longleftrightarrow> True"
| "PInf \<le> _ \<longleftrightarrow> False"
| "_ \<le> NInf \<longleftrightarrow> False"

instance ..

end

instantiation f32 :: inverse
begin

definition inverse_f32 :: "f32 \<Rightarrow> f32" where
  "inverse_f32 a = Fin 1 div a"

instance ..

end

text \<open>Go's \<^verbatim>\<open>==\<close> on floats: a NaN equals nothing, itself included.\<close>

definition feq :: "f32 \<Rightarrow> f32 \<Rightarrow> bool" where
  "feq a b = (a \<noteq> NaN \<and> a = b)"

text \<open>
  Conversions. \<^verbatim>\<open>float32(i)\<close> of an integer is exact in the model. \<^verbatim>\<open>int(x)\<close> of
  a finite float drops the fraction (towards zero). Go leaves the conversion of a NaN,
  of an infinity and of a value outside the target type implementation-dependent: the
  model takes what the amd64 compiler produces (the smallest 64-bit integer for
  \<^verbatim>\<open>int\<close>, the low byte of the truncated value for \<^verbatim>\<open>uint8\<close>). Go's \<^verbatim>\<open>int\<close> is
  modelled by the unbounded integers: every integer of the program is a length, a count
  or a configuration value, and none of the statements below depends on a wrap-around.
\<close>

definition f32_of_int :: "int \<Rightarrow> f32" where
  "f32_of_int i = Fin (of_int i)"

fun int_of_f32 :: "f32 \<Rightarrow> int" where
  "int_of_f32 (Fin a) = (if 0 \<le> a then \<lfloor>a\<rfloor> else \<lceil>a\<rceil>)"
| "int_of_f32 _ = - (2 ^ 63)"

definition u8_of_f32 :: "f32 \<Rightarrow> 8 word" where
  "u8_of_f32 x = word_of_int (int_of_f32 x)"

definition f32_of_u8 :: "8 word \<Rightarrow> f32" where
  "f32_of_u8 w = Fin (of_nat (unat w))"

text \<open>The program's own \<^verbatim>\<open>max\<close>, \<^verbatim>\<open>min\<close> and \<^verbatim>\<open>abs\<close> on \<^verbatim>\<open>float32\<close>.\<close>

definition maxf :: "f32 \<Rightarrow> f32 \<Rightarrow> f32" where
  "maxf a b = (if b < a then a else b)"

definition minf :: "f32 \<Rightarrow> f32 \<Rightarrow> f32" where
  "minf a b = (if b < a then b else a)"

definition absf :: "f32 \<Rightarrow> f32" where
  "absf a = (if a < Fin 0 then - a else a)"

section \<open>Colours and the configuration\<close>

text \<open>\<^verbatim>\<open>type rgbf [3]float32\<close>: the three channels, red first.\<close>

type_synonym rgbf = "f32 \<times> f32 \<times> f32"

record Option =
  SampleFraction :: f32
  BrightnessThreshold :: f32
  SaturationThreshold :: f32
  NumColors :: int
  KmeansMaxIter :: int
  Saturate :: bool
  WhiteBackground :: bool

definition MakeDefaultOption :: Option where
  "MakeDefaultOption =
     \<lparr> SampleFraction = Fin (5 / 100), BrightnessThreshold = Fin (25 / 100),
       SaturationThreshold = Fin (20 / 100), NumColors = 8, KmeansMaxIter = 40,
       Saturate = True, WhiteBackground = True \<rparr>"

section \<open>Colour space conversion\<close>

definition rgbToHsv :: "rgbf \<Rightarrow> f32 \<times> f32 \<times> f32" where
  "rgbToHsv p =
     (case p of (p0, p1, p2) \<Rightarrow>
        let r = p0 / Fin 255;
            g = p1 / Fin 255;
            b = p2 / Fin 255;
            mx = maxf (maxf r g) b;
            mn = minf (minf r g) b;
            h0 = mx - mn;
            h1 = (if Fin 0 < h0 then
                    (if feq mx r then
                       (let h = (g - b) / h0 in if h < Fin 0 then h + Fin 6 else h)
                     else if feq mx g then Fin 2 + (b - r) / h0
                     else Fin 4 + (r - g) / h0)
                  else h0);
            h = h1 / Fin 6;
            s0 = mx - mn;
            s = (if Fin 0 < mx then s0 / mx else s0);
            v = mx
        in (h, s, v))"

definition hsvToRgb :: "f32 \<Rightarrow> f32 \<Rightarrow> f32 \<Rightarrow> rgbf" where
  "hsvToRgb h s v =
     (case
        (if Fin 0 < s then
           (let h6 = h * Fin 6;
                i = int_of_f32 h6;
                f = h6 - f32_of_int i
            in if i = 0 then (v, v * (Fin 1 - s * (Fin 1 - f)), v * (Fin 1 - s))
               else if i = 1 then (v * (Fin 1 - s * f), v, v * (Fin 1 - s))
               else if i = 2 then (v * (Fin 1 - s), v, v * (Fin 1 - s * (Fin 1 - f)))
               else if i = 3 then (v * (Fin 1 - s), v * (Fin 1 - s * f), v)
               else if i = 4 then (v * (Fin 1 - s * (Fin 1 - f)), v * (Fin 1 - s), v)
               else if i = 5 then (v, v * (Fin 1 - s), v * (Fin 1 - s * f))
               else (v, v, v))
         else (v, v, v))
      of (r, g, b) \<Rightarrow> (r * Fin 255, g * Fin 255, b * Fin 255))"

section \<open>Run-time panics\<close>

text \<open>
  The program returns no error value anywhere. What can stop it is a run-time panic of
  Go: an index out of range. A function that can panic returns an \<open>option\<close>, and
  \<open>None\<close> is the panic.
\<close>

definition index :: "'a list \<Rightarrow> nat \<Rightarrow> 'a option" where
  "index xs i = (if i < length xs then Some (xs ! i) else None)"

section \<open>Distances and the nearest centre\<close>

fun add :: "rgbf \<Rightarrow> rgbf \<Rightarrow> rgbf" where
  "add (a0, a1, a2) (b0, b1, b2) = (a0 + b0, a1 + b1, a2 + b2)"

fun mul :: "rgbf \<Rightarrow> f32 \<Rightarrow> rgbf" where
  "mul (a0, a1, a2) scalar = (a0 * scalar, a1 * scalar, a2 * scalar)"

fun squareDistance :: "rgbf \<Rightarrow> rgbf \<Rightarrow> f32" where
  "squareDistance (a0, a1, a2) (b0, b1, b2) =
     Fin 0 + (a0 - b0) * (a0 - b0) + (a1 - b1) * (a1 - b1) + (a2 - b2) * (a2 - b2)"

text \<open>
  The loop of \<^verbatim>\<open>closest\<close> from index \<open>i\<close> on, with the best index and the least
  distance found so far; \<^verbatim>\<open>means[0]\<close> panics on an empty list.
\<close>

fun closest_loop :: "rgbf \<Rightarrow> rgbf list \<Rightarrow> nat \<Rightarrow> nat \<Rightarrow> f32 \<Rightarrow> nat" where
  "closest_loop p [] i idx minimum = idx"
| "closest_loop p (m # ms) i idx minimum =
     (let squaredDistance = squareDistance p m
      in if squaredDistance < minimum then closest_loop p ms (i + 1) i squaredDistance
         else closest_loop p ms (i + 1) idx minimum)"

definition closest :: "rgbf \<Rightarrow> rgbf list \<Rightarrow> nat option" where
  "closest p means =
     (case means of
        [] \<Rightarrow> None
      | m0 # ms \<Rightarrow> Some (closest_loop p ms 1 0 (squareDistance p m0)))"

section \<open>Foreground mask\<close>

definition createForegroundMask :: "rgbf \<Rightarrow> rgbf list \<Rightarrow> Option \<Rightarrow> bool list" where
  "createForegroundMask bgColor samples option =
     (case rgbToHsv bgColor of (_, sBg, vBg) \<Rightarrow>
        let sSamples = map (\<lambda>sample. case rgbToHsv sample of (_, s, _) \<Rightarrow> s) samples;
            vSamples = map (\<lambda>sample. case rgbToHsv sample of (_, _, v) \<Rightarrow> v) samples
        in map (\<lambda>(s, v).
                  let sDiff = absf (sBg - s);
                      vDiff = absf (vBg - v)
                  in BrightnessThreshold option \<le> vDiff \<or> SaturationThreshold option \<le> sDiff)
             (zip sSamples vSamples))"

section \<open>Background detection\<close>

text \<open>
  \<^verbatim>\<open>shift\<close> and \<^verbatim>\<open>halfbin\<close> are \<^verbatim>\<open>uint8\<close>, and so is the constant \<^verbatim>\<open>1\<close> that
  is shifted; \<^verbatim>\<open><<\<close> binds tighter than \<^verbatim>\<open>+\<close>. The program calls
  \<^verbatim>\<open>findBackgroundColor\<close> with 6 bits only.
\<close>

definition quantize :: "rgbf list \<Rightarrow> 8 word \<Rightarrow> rgbf list" where
  "quantize image' bitsPerChannel =
     (let shift = unat (8 - bitsPerChannel);
          halfbin = drop_bit 1 (push_bit shift (1 :: 8 word));
          q = (\<lambda>x. f32_of_u8 (push_bit shift (drop_bit shift (u8_of_f32 x)) + halfbin))
      in map (\<lambda>(p0, p1, p2). (q p0, q p1, q p2)) image')"

text \<open>
  The counting loop, which starts at index 1: \<^verbatim>\<open>count\<close> is a Go map, and a key that
  is not in it reads as 0.
\<close>

fun findBackgroundColor_loop ::
  "rgbf list \<Rightarrow> (rgbf \<rightharpoonup> int) \<Rightarrow> int \<Rightarrow> rgbf \<Rightarrow> rgbf" where
  "findBackgroundColor_loop [] count maxcount maxvalue = maxvalue"
| "findBackgroundColor_loop (v # vs) count maxcount maxvalue =
     (let c = (case count v of None \<Rightarrow> 0 | Some n \<Rightarrow> n) + 1
      in if c > maxcount then findBackgroundColor_loop vs (count(v \<mapsto> c)) c v
         else findBackgroundColor_loop vs (count(v \<mapsto> c)) maxcount maxvalue)"

definition findBackgroundColor :: "rgbf list \<Rightarrow> 8 word \<Rightarrow> rgbf option" where
  "findBackgroundColor image' bitsPerChannel =
     (case quantize image' bitsPerChannel of
        [] \<Rightarrow> None
      | q0 # qs \<Rightarrow> Some (findBackgroundColor_loop qs Map.empty 1 q0))"

section \<open>K-means\<close>

definition kMeans_seeds :: "int \<Rightarrow> rgbf list" where
  "kMeans_seeds k =
     map (\<lambda>i. hsvToRgb (f32_of_int (int i) / f32_of_int (k - 1)) (Fin 1) (Fin 1))
       [0..<nat k]"

fun kMeans_assign :: "rgbf list \<Rightarrow> rgbf list \<Rightarrow> nat list option" where
  "kMeans_assign [] means = Some []"
| "kMeans_assign (d # ds) means =
     do { c \<leftarrow> closest d means; cs \<leftarrow> kMeans_assign ds means; Some (c # cs) }"

text \<open>The second loop of an iteration: the sums and the member counts per cluster.\<close>

fun kMeans_accumulate ::
  "rgbf list \<Rightarrow> nat list \<Rightarrow> rgbf list \<Rightarrow> int list \<Rightarrow> (rgbf list \<times> int list) option" where
  "kMeans_accumulate [] clusters means mLen = Some (means, mLen)"
| "kMeans_accumulate (p # ps) [] means mLen = None"
| "kMeans_accumulate (p # ps) (cluster # cs) means mLen =
     do {
       m0 \<leftarrow> index means cluster;
       n0 \<leftarrow> index mLen cluster;
       kMeans_accumulate ps cs (means[cluster := add m0 p]) (mLen[cluster := n0 + 1])
     }"

text \<open>The third loop: a count that is not positive is replaced by 1.\<close>

definition kMeans_normalise :: "rgbf list \<Rightarrow> int list \<Rightarrow> rgbf list" where
  "kMeans_normalise means mLen =
     map (\<lambda>(m, n). let count = (if n \<le> 0 then 1 else n) in mul m (Fin 1 / f32_of_int count))
       (zip means mLen)"

text \<open>The update step of an iteration: the three loops that recompute the centres.\<close>

definition kMeans_update :: "rgbf list \<Rightarrow> nat list \<Rightarrow> nat \<Rightarrow> rgbf list option" where
  "kMeans_update data clusters k =
     do {
       (total, mLen) \<leftarrow>
         kMeans_accumulate data clusters (replicate k (Fin 0, Fin 0, Fin 0)) (replicate k 0);
       Some (kMeans_normalise total mLen)
     }"

text \<open>The fourth loop: the new clusters and the number of points that moved.\<close>

fun kMeans_reassign :: "rgbf list \<Rightarrow> nat list \<Rightarrow> rgbf list \<Rightarrow> (int \<times> nat list) option" where
  "kMeans_reassign [] clusters means = Some (0, [])"
| "kMeans_reassign (p # ps) [] means = None"
| "kMeans_reassign (p # ps) (c # cs) means =
     do {
       cluster \<leftarrow> closest p means;
       (changes, cs') \<leftarrow> kMeans_reassign ps cs means;
       Some (if cluster \<noteq> c then changes + 1 else changes, cluster # cs')
     }"

fun kMeans_iterate :: "nat \<Rightarrow> rgbf list \<Rightarrow> rgbf list \<Rightarrow> nat list \<Rightarrow> rgbf list option" where
  "kMeans_iterate 0 data means clusters = Some means"
| "kMeans_iterate (Suc n) data means clusters =
     do {
       means' \<leftarrow> kMeans_update data clusters (length means);
       (changes, clusters') \<leftarrow> kMeans_reassign data clusters means';
       if changes = 0 then Some means' else kMeans_iterate n data means' clusters'
     }"

definition kMeans :: "rgbf list \<Rightarrow> int \<Rightarrow> int \<Rightarrow> rgbf list option" where
  "kMeans data k maxItr =
     do {
       let means = kMeans_seeds k;
       clusters \<leftarrow> kMeans_assign data means;
       kMeans_iterate (nat maxItr) data means clusters
     }"

section \<open>Palette\<close>

definition roundf :: "f32 \<Rightarrow> f32" where
  "roundf v = f32_of_int (int_of_f32 (v + Fin (1 / 2)))"

definition createPalette :: "rgbf list \<Rightarrow> Option \<Rightarrow> (rgbf list \<times> rgbf) option" where
  "createPalette samples option =
     do {
       bgColor \<leftarrow> findBackgroundColor samples 6;
       let fgMask = createForegroundMask bgColor samples option;
       let data = map snd (filter fst (zip fgMask samples));
       mean \<leftarrow> kMeans data (NumColors option - 1) (KmeansMaxIter option);
       let palette = bgColor # map (\<lambda>(c0, c1, c2). (roundf c0, roundf c1, roundf c2)) mean;
       Some (palette, bgColor)
     }"

definition saturatePalette :: "rgbf list \<Rightarrow> rgbf list" where
  "saturatePalette palette =
     (case fold (\<lambda>pal (maxSat, minSat). case rgbToHsv pal of (_, s, _) \<Rightarrow>
                   (maxf maxSat s, minf minSat s)) palette (Fin 0, Fin 1)
      of (maxSat, minSat) \<Rightarrow>
        map (\<lambda>pal. case rgbToHsv pal of (h, s, v) \<Rightarrow>
               let newSat = (s - minSat) / (maxSat - minSat) in hsvToRgb h newSat v)
          palette)"

fun applyPalette_loop :: "rgbf list \<Rightarrow> bool list \<Rightarrow> rgbf list \<Rightarrow> rgbf \<Rightarrow> rgbf list option" where
  "applyPalette_loop [] fgMask palette bgColor = Some []"
| "applyPalette_loop (p # ps) [] palette bgColor = None"
| "applyPalette_loop (p # ps) (fg # fgs) palette bgColor =
     (if \<not> fg then
        do { rest \<leftarrow> applyPalette_loop ps fgs palette bgColor; Some (bgColor # rest) }
      else
        do {
          minidx \<leftarrow> closest p palette;
          c \<leftarrow> (if minidx = 0 then Some bgColor else index palette minidx);
          rest \<leftarrow> applyPalette_loop ps fgs palette bgColor;
          Some (c # rest)
        })"

definition applyPalette ::
  "rgbf list \<Rightarrow> rgbf list \<Rightarrow> rgbf \<Rightarrow> rgbf \<Rightarrow> Option \<Rightarrow> rgbf list option" where
  "applyPalette img palette origBgColor bgColor option =
     applyPalette_loop img (createForegroundMask origBgColor img option) palette bgColor"

section \<open>Sampling\<close>

text \<open>
  \<^verbatim>\<open>rand.Shuffle\<close> permutes the copy of the image with the global random source. The
  permutation it applies is an input of the model: \<open>shuffle\<close>. The last loop reads
  \<^verbatim>\<open>shuffled[i]\<close> for every \<open>i\<close> below \<^verbatim>\<open>numSamples\<close>, which panics when there are
  fewer elements.
\<close>

definition samplePixels ::
  "(rgbf list \<Rightarrow> rgbf list) \<Rightarrow> rgbf list \<Rightarrow> Option \<Rightarrow> rgbf list option" where
  "samplePixels shuffle img option =
     (let numPixels = int (length img);
          numSamples = int_of_f32 (f32_of_int numPixels * SampleFraction option);
          shuffled = shuffle img
      in if nat numSamples \<le> length shuffled then Some (take (nat numSamples) shuffled)
         else None)"

section \<open>The entry point\<close>

text \<open>
  An input image is what \<^verbatim>\<open>load\<close> reads of an \<^verbatim>\<open>image.Image\<close>: the width and the
  height of its bounds, and the colour at a point as \<^verbatim>\<open>RGBA()\<close> returns it (four
  \<^verbatim>\<open>uint32\<close>). The bounds start at the origin, as those of a decoded image do. The
  result is an \<^verbatim>\<open>image.RGBA\<close> of the same bounds, given by its pixels row by row.
\<close>

type_synonym rgba32 = "32 word \<times> 32 word \<times> 32 word \<times> 32 word"
type_synonym rgba8 = "8 word \<times> 8 word \<times> 8 word \<times> 8 word"

record Image =
  Dx :: nat
  Dy :: nat
  At :: "nat \<Rightarrow> nat \<Rightarrow> rgba32"

record RGBA =
  RectDx :: nat
  RectDy :: nat
  Pix :: "rgba8 list"

definition load :: "Image \<Rightarrow> rgbf list" where
  "load img =
     concat (map (\<lambda>y. map (\<lambda>x. case At img x y of (r, g, b, _) \<Rightarrow>
                               (f32_of_u8 (ucast r), f32_of_u8 (ucast g), f32_of_u8 (ucast b)))
                        [0..<Dx img])
               [0..<Dy img])"

definition Shrink :: "(rgbf list \<Rightarrow> rgbf list) \<Rightarrow> Image \<Rightarrow> Option option \<Rightarrow> RGBA option" where
  "Shrink shuffle input opt =
     do {
       let option = (case opt of None \<Rightarrow> MakeDefaultOption | Some o' \<Rightarrow> o');
       let img = load input;
       samples \<leftarrow> samplePixels shuffle img option;
       (palette0, origBgColor) \<leftarrow> createPalette samples option;
       let palette = (if Saturate option then saturatePalette palette0 else palette0);
       let bgColor = (if WhiteBackground option then (Fin 255, Fin 255, Fin 255) else origBgColor);
       result \<leftarrow> applyPalette img palette origBgColor bgColor option;
       pixels \<leftarrow> (if Dy input * Dx input \<le> length result
                   then Some (take (Dy input * Dx input) result) else None);
       Some \<lparr> RectDx = Dx input, RectDy = Dy input,
              Pix = map (\<lambda>(c0, c1, c2). (u8_of_f32 c0, u8_of_f32 c1, u8_of_f32 c2, 255)) pixels \<rparr>
     }"

section \<open>Facts about the nearest centre and the seeding\<close>

lemma closest_loop_bound:
  "idx < i \<Longrightarrow> closest_loop p ms i idx minimum < i + length ms"
proof (induction ms arbitrary: i idx minimum)
  case Nil
  then show ?case by simp
next
  case (Cons m ms)
  have a: "closest_loop p ms (Suc i) i d < Suc i + length ms" for d
    by (rule Cons.IH) simp
  have b: "closest_loop p ms (Suc i) idx d < Suc i + length ms" for d
    by (rule Cons.IH) (use Cons.prems in simp)
  show ?case using a b by (simp add: Let_def)
qed

lemma closest_Some:
  "means \<noteq> [] \<Longrightarrow> \<exists>j. closest p means = Some j \<and> j < length means"
  using closest_loop_bound [of 0 1 p "tl means"]
  by (cases means) (auto simp: closest_def)

lemma closest_lt: "closest p means = Some j \<Longrightarrow> j < length means"
  using closest_loop_bound [of 0 1 p "tl means"]
  by (cases means) (auto simp: closest_def)

lemma kMeans_assign_Some:
  "means \<noteq> [] \<Longrightarrow> \<exists>cs. kMeans_assign data means = Some cs \<and> length cs = length data \<and> (\<forall>c\<in>set cs. c < length means)"
proof (induction data)
  case Nil
  then show ?case by simp
next
  case (Cons d ds)
  from closest_Some [OF Cons.prems, of d] obtain j where "closest d means = Some j" "j < length means" by blast
  moreover from Cons obtain cs where "kMeans_assign ds means = Some cs" "length cs = length ds" "\<forall>c\<in>set cs. c < length means" by blast
  ultimately show ?case by simp
qed

lemma length_kMeans_seeds: "length (kMeans_seeds k) = nat k"
  by (simp add: kMeans_seeds_def)

lemma hsvToRgb_hue_one: "hsvToRgb (Fin 1) (Fin 1) (Fin 1) = (Fin 255, Fin 255, Fin 255)"
  by (simp add: hsvToRgb_def f32_of_int_def minus_f32_def)

lemma kMeans_zero_iterations:
  assumes "kMeans_seeds k \<noteq> []"
  shows "kMeans data k 0 = Some (kMeans_seeds k)"
proof -
  obtain cs where "kMeans_assign data (kMeans_seeds k) = Some cs"
    using kMeans_assign_Some [OF assms] by blast
  then show ?thesis
    by (simp add: kMeans_def)
qed

lemma kMeans_seeds_nth:
  assumes "2 \<le> k" and "i < nat k"
  shows "kMeans_seeds k ! i = hsvToRgb (Fin (real i / real_of_int (k - 1))) (Fin 1) (Fin 1)"
proof -
  have "real_of_int (k - 1) \<noteq> 0"
    using assms by simp
  then have "f32_of_int (int i) / f32_of_int (k - 1) = Fin (real i / real_of_int (k - 1))"
    unfolding f32_of_int_def by simp
  then show ?thesis
    using assms by (simp add: kMeans_seeds_def)
qed

section \<open>Claims\<close>

text \<open>
  Claim C9. For every \<open>k \<ge> 2\<close> the initial centres of \<^verbatim>\<open>kMeans\<close> (what it returns
  when no iteration runs) are \<open>hsvToRgb (i / (k - 1)) 1 1\<close> for \<open>i = 0, \<dots>, k - 1\<close>. The
  hue of the last one is exactly 1, so \<open>h * 6\<close> converts to the integer 6, which is none
  of the sectors 0 to 5: the switch takes its empty default branch and the last initial
  centre is white, \<open>(255, 255, 255)\<close>.
\<close>

theorem kMeans_seeds_last_white:
  assumes "2 \<le> k"
  shows "kMeans data k 0 = Some (kMeans_seeds k) \<and>
         length (kMeans_seeds k) = nat k \<and>
         (\<forall>i<nat k. kMeans_seeds k ! i =
            hsvToRgb (Fin (real i / real_of_int (k - 1))) (Fin 1) (Fin 1)) \<and>
         int_of_f32 (Fin (real (nat k - 1) / real_of_int (k - 1)) * Fin 6) = 6 \<and>
         kMeans_seeds k ! (nat k - 1) = (Fin 255, Fin 255, Fin 255)"
proof -
  have ne: "kMeans_seeds k \<noteq> []"
    using assms by (simp add: kMeans_seeds_def)
  have run: "kMeans data k 0 = Some (kMeans_seeds k)"
    by (rule kMeans_zero_iterations [OF ne])
  have "real (nat k - 1) = real_of_int (k - 1)"
    using assms by (simp add: of_nat_diff)
  then have one: "real (nat k - 1) / real_of_int (k - 1) = 1"
    using assms by simp
  have six: "int_of_f32 (Fin (real (nat k - 1) / real_of_int (k - 1)) * Fin 6) = 6"
    unfolding one by simp
  have "kMeans_seeds k ! (nat k - 1) =
          hsvToRgb (Fin (real (nat k - 1) / real_of_int (k - 1))) (Fin 1) (Fin 1)"
    by (rule kMeans_seeds_nth) (use assms in simp_all)
  then have last: "kMeans_seeds k ! (nat k - 1) = (Fin 255, Fin 255, Fin 255)"
    unfolding one by (simp only: hsvToRgb_hue_one)
  show ?thesis
    using run six last kMeans_seeds_nth [OF assms] length_kMeans_seeds [of k] by blast
qed

theorem kMeans_seeds_last_white_witness:
  "(2::int) \<le> 3 \<and>
   kMeans [(Fin 10, Fin 10, Fin 10)] 3 0 = Some (kMeans_seeds 3) \<and>
   length (kMeans_seeds 3) = 3 \<and>
   kMeans_seeds 3 ! 1 = hsvToRgb (Fin (1 / 2)) (Fin 1) (Fin 1) \<and>
   kMeans_seeds 3 ! 2 = (Fin 255, Fin 255, Fin 255)"
proof -
  have h: "(2::int) \<le> 3" by simp
  have n: "nat 3 = (3::nat)" "(3::nat) - 1 = 2" "real_of_int (3 - 1) = 2" by simp_all
  from kMeans_seeds_last_white [OF h, of "[(Fin 10, Fin 10, Fin 10)]"]
  have a: "kMeans [(Fin 10, Fin 10, Fin 10)] 3 0 = Some (kMeans_seeds 3)"
    and b: "length (kMeans_seeds 3) = 3"
    and c: "\<forall>i<3. kMeans_seeds 3 ! i = hsvToRgb (Fin (real i / 2)) (Fin 1) (Fin 1)"
    and d: "kMeans_seeds 3 ! 2 = (Fin 255, Fin 255, Fin 255)"
    unfolding n by blast+
  from c have "kMeans_seeds 3 ! 1 = hsvToRgb (Fin (real 1 / 2)) (Fin 1) (Fin 1)"
    by (metis One_nat_def lessI less_SucI numeral_3_eq_3)
  then have e: "kMeans_seeds 3 ! 1 = hsvToRgb (Fin (1 / 2)) (Fin 1) (Fin 1)"
    by simp
  show ?thesis using h a b d e by blast
qed



end
